theory Spec2Isabelle
  imports Main
begin

section \<open>Data model of \<open>template001.py\<close>\<close>

text \<open>
  The development follows \<open>template001.py\<close> from top to bottom: the statements that run
  when the module is executed (the environment lookup of lines 32--33, the demonstration
  requests and the \<open>print\<close> of lines 37--44, the seed \<open>inputs\<close> of line 117, the
  construction of the client on line 131, and the exchange of lines 133--164), and the tool
  handler \<open>fetch_fruits\<close> of lines 93--113, which the module defines and never calls.

  Python strings are lists of characters; floating-point numbers are kept opaque.
\<close>

typedecl pyfloat

datatype json =
    JNull
  | JBool bool
  | JInt int
  | JFloat pyfloat
  | JStr string
  | JArr "json list"
  | JObj "(string \<times> json) list"

text \<open>
  Exceptions. \<open>External\<close> stands for whatever a collaborator raises (the HTTP library, the
  completion service), named by its class.
\<close>

datatype exn =
    JSONDecodeError
  | RequestsJSONDecodeError
  | KeyError string
  | TypeError
  | IndexError
  | AttributeError string
  | External string

text \<open>The pydantic models of lines 48--55.\<close>

record ExampleModel =
  field_1 :: int
  field_2 :: string
  field_3 :: "int \<times> int"
  field_4 :: pyfloat

record ExampleModels =
  example_models :: "ExampleModel list"

text \<open>
  The items of \<open>response.output\<close>: a function tool call (with \<open>call_id\<close>, \<open>name\<close> and the
  \<open>arguments\<close> as JSON text) or an output message, which has no \<open>call_id\<close> attribute.
\<close>

record function_tool_call =
  call_id :: string
  name :: string
  arguments :: string

datatype output_item =
    FunctionToolCall function_tool_call
  | OutputMessage string

text \<open>
  The entries of \<open>inputs\<close>: the seed dictionaries \<open>{role, content}\<close>, an output item of the
  response appended as it is, and the dictionary
  \<open>{type: function_call_output, call_id, output}\<close>.
\<close>

datatype input_item =
    EasyMessage string string
  | ResponseItem output_item
  | FunctionCallOutput string string

record request =
  model :: string
  input :: "input_item list"
  tools_of :: "json list"
  text_format :: "string option"

record response =
  output_of :: "output_item list"

record parsed_response =
  output_parsed :: "ExampleModels option"

record http_response =
  body :: string

text \<open>Every call that leaves the program is logged, in order.\<close>

datatype call =
    HttpGet string "(string \<times> json) list"
  | HttpPost string "(string \<times> json) list"
  | ResponsesCreate request
  | ResponsesParse request

text \<open>What \<open>print\<close> writes: the content of a response (line 44), the parsed answer (line 164).\<close>

datatype printed =
    PrintedContent string
  | PrintedParsed "ExampleModels option"

text \<open>
  The program state: the world outside (of any type), the module-level list \<open>inputs\<close>, the
  log of outgoing calls, and what has been printed.
\<close>

record 'w state =
  world :: 'w
  inputs :: "input_item list"
  calls :: "call list"
  stdout :: "printed list"

text \<open>
  The Python library functions the source calls are parameters: \<open>json.loads\<close> (\<open>None\<close> is
  \<open>json.JSONDecodeError\<close>), \<open>str\<close> on a value that is not a string, and \<open>requests.get\<close>,
  which acts on the world and returns a response or raises.
\<close>

record 'w pylib =
  json_loads :: "string \<Rightarrow> json option"
  py_str :: "json \<Rightarrow> string"
  requests_get :: "string \<Rightarrow> (string \<times> json) list \<Rightarrow> 'w \<Rightarrow> (exn + http_response) \<times> 'w"

text \<open>The completion service, as the two operations of \<open>client.responses\<close> the source calls.\<close>

record 'w openai_client =
  responses_create :: "request \<Rightarrow> 'w \<Rightarrow> (exn + response) \<times> 'w"
  responses_parse :: "request \<Rightarrow> 'w \<Rightarrow> (exn + parsed_response) \<times> 'w"

text \<open>
  What the module as a whole runs on: the library functions above, \<open>requests.post\<close>, the
  process environment as \<open>os.getenv\<close> reads it after \<open>load_dotenv(override=True)\<close>, and the
  constructor \<open>OpenAI(api_key=...)\<close>, which gives a client or raises.
\<close>

record 'w host =
  pylib_of :: "'w pylib"
  requests_post :: "string \<Rightarrow> (string \<times> json) list \<Rightarrow> 'w \<Rightarrow> (exn + http_response) \<times> 'w"
  os_getenv :: "string \<Rightarrow> string option"
  OpenAI :: "string option \<Rightarrow> exn + 'w openai_client"

section \<open>The tool declaration (lines 60--89)\<close>

definition nutrition_enum :: "json list" where
  "nutrition_enum =
     [JStr ''sugar'', JStr ''protein'', JStr ''fat'', JStr ''carbohydrates'', JStr ''calories'']"

definition tools :: "json list" where
  "tools = [JObj
     [(''type'', JStr ''function''),
      (''name'', JStr ''get_fruits''),
      (''description'', JStr ''Get fruits with a nutritional value with a specific range.''),
      (''parameters'', JObj
         [(''type'', JStr ''object''),
          (''properties'', JObj
             [(''nutrition_name'', JObj
                 [(''type'', JStr ''string''),
                  (''enum'', JArr nutrition_enum),
                  (''description'', JStr ''Name of the nutritional value.'')]),
              (''min_value'', JObj
                 [(''type'', JStr ''number''),
                  (''description'', JStr ''Minimum value of the nutritional value.'')]),
              (''max_value'', JObj
                 [(''type'', JStr ''number''),
                  (''description'', JStr ''Maximum value of the nutritional value.'')])]),
          (''required'', JArr [JStr ''nutrition_name'', JStr ''min_value'', JStr ''max_value'']),
          (''additionalProperties'', JBool False)]),
      (''strict'', JBool True)]]"

section \<open>\<open>fetch_fruits\<close> (lines 93--113)\<close>

text \<open>
  \<open>d[k]\<close>: a dictionary raises \<open>KeyError\<close> on a missing key; every other JSON value raises
  \<open>TypeError\<close> on a string subscript.
\<close>

fun subscript :: "json \<Rightarrow> string \<Rightarrow> exn + json" where
  "subscript (JObj kvs) k = (case map_of kvs k of None \<Rightarrow> Inl (KeyError k) | Some v \<Rightarrow> Inr v)"
| "subscript _ k = Inl TypeError"

text \<open>A replacement field of an f-string: a string is inserted as it is, anything else through \<open>str\<close>.\<close>

fun format_value :: "(json \<Rightarrow> string) \<Rightarrow> json \<Rightarrow> string" where
  "format_value to_str (JStr s) = s"
| "format_value to_str v = to_str v"

definition fruit_api_url :: string where
  "fruit_api_url = ''https://www.fruityvice.com/api/fruit''"

text \<open>\<open>api_res.json()\<close>: the body decoded as JSON, or the HTTP library's decode error.\<close>

definition response_json :: "'w pylib \<Rightarrow> http_response \<Rightarrow> exn + json" where
  "response_json lib api_res =
     (case json_loads lib (body api_res) of
        None \<Rightarrow> Inl RequestsJSONDecodeError
      | Some v \<Rightarrow> Inr v)"

definition fetch_fruits ::
  "'w pylib \<Rightarrow> function_tool_call \<Rightarrow> 'w state \<Rightarrow> (exn + json) \<times> 'w state" where
  "fetch_fruits lib parsed_tool_call s =
     (case json_loads lib (arguments parsed_tool_call) of
        None \<Rightarrow> (Inl JSONDecodeError, s)
      | Some args_as_json \<Rightarrow>
     (case subscript args_as_json ''min_value'' of
        Inl e \<Rightarrow> (Inl e, s)
      | Inr min_v \<Rightarrow>
     (case subscript args_as_json ''max_value'' of
        Inl e \<Rightarrow> (Inl e, s)
      | Inr max_v \<Rightarrow>
     (case subscript args_as_json ''nutrition_name'' of
        Inl e \<Rightarrow> (Inl e, s)
      | Inr nutrition_name \<Rightarrow>
          (let params = [(''min'', min_v), (''max'', max_v)];
               url_complete = fruit_api_url @ ''/'' @ format_value (py_str lib) nutrition_name;
               (r, w') = requests_get lib url_complete params (world s);
               s' = s\<lparr>world := w', calls := calls s @ [HttpGet url_complete params]\<rparr>
           in case r of
                Inl e \<Rightarrow> (Inl e, s')
              | Inr api_res \<Rightarrow> (response_json lib api_res, s'))))))"

section \<open>The module, top to bottom\<close>

text \<open>Lines 37--38.\<close>

definition url_1 :: string where
  "url_1 = ''https://www.fruityvice.com''"

definition request_data :: "(string \<times> json) list" where
  "request_data = [(''param_1'', JStr ''value_1''), (''param_2'', JStr ''value_2'')]"

text \<open>Lines 117--126.\<close>

definition seed_inputs :: "input_item list" where
  "seed_inputs =
     [EasyMessage ''developer''
        ''I am operating a system that is designed to provide responses to users within a defined scope.'',
      EasyMessage ''user''
        ''This should be a request to the system that is within the scope of its design.'']"

definition model_name :: string where
  "model_name = ''gpt-4.1-mini''"

definition tool_output_placeholder :: string where
  "tool_output_placeholder = ''output of the method that executed the function call''"

text \<open>
  \<open>json.dumps\<close> on a string (the only use in the source, line 151), with the default
  \<open>ensure_ascii\<close>: the string between double quotes, with the quote, the backslash and
  every character outside the range from space to tilde escaped.
\<close>

definition hex_digit :: "nat \<Rightarrow> char" where
  "hex_digit n = ''0123456789abcdef'' ! (n mod 16)"

definition escape_ascii :: "char \<Rightarrow> string" where
  "escape_ascii c =
     (if c = CHR 0x22 then [CHR 0x5C, CHR 0x22]
      else if c = CHR 0x5C then [CHR 0x5C, CHR 0x5C]
      else if c = CHR 0x0A then [CHR 0x5C, CHR ''n'']
      else if c = CHR 0x0D then [CHR 0x5C, CHR ''r'']
      else if c = CHR 0x09 then [CHR 0x5C, CHR ''t'']
      else if c = CHR 0x08 then [CHR 0x5C, CHR ''b'']
      else if c = CHR 0x0C then [CHR 0x5C, CHR ''f'']
      else if 0x20 \<le> (of_char c :: nat) \<and> (of_char c :: nat) \<le> 0x7E then [c]
      else [CHR 0x5C, CHR ''u'', CHR ''0'', CHR ''0'',
            hex_digit (of_char c div 16), hex_digit (of_char c)])"

definition json_dumps_str :: "string \<Rightarrow> string" where
  "json_dumps_str s = [CHR 0x22] @ concat (map escape_ascii s) @ [CHR 0x22]"

text \<open>\<open>item.call_id\<close>: an output message has no such attribute.\<close>

fun get_call_id :: "output_item \<Rightarrow> exn + string" where
  "get_call_id (FunctionToolCall c) = Inr (call_id c)"
| "get_call_id (OutputMessage m) = Inl (AttributeError ''call_id'')"

text \<open>
  How a run ends: with an exception nobody catches (the source has no \<open>try\<close>), or after
  its last statement.
\<close>

datatype outcome =
    Raised exn
  | Finished

text \<open>The keyword arguments of the two calls (lines 133--137 and 156--161).\<close>

definition create_request :: "input_item list \<Rightarrow> request" where
  "create_request inp = \<lparr>model = model_name, input = inp, tools_of = tools, text_format = None\<rparr>"

definition parse_request :: "input_item list \<Rightarrow> request" where
  "parse_request inp =
     \<lparr>model = model_name, input = inp, tools_of = tools, text_format = Some ''ExampleModels''\<rparr>"

text \<open>
  Lines 32--131: the key is read from the environment, the demonstration GET and POST are
  sent and the content of the first answer is printed, \<open>inputs\<close> is set, the client is
  constructed. Each of the two requests and the constructor may raise, which ends the run.
\<close>

definition preamble :: "'w host \<Rightarrow> 'w \<Rightarrow> (exn + 'w openai_client) \<times> 'w state" where
  "preamble host w0 =
     (let openai_api_key = os_getenv host ''OPENAI_API_KEY'';
          s0 = \<lparr>world = w0, inputs = [], calls = [], stdout = []\<rparr>;
          (g, w1) = requests_get (pylib_of host) url_1 request_data (world s0);
          s1 = s0\<lparr>world := w1, calls := calls s0 @ [HttpGet url_1 request_data]\<rparr>
      in case g of
           Inl e \<Rightarrow> (Inl e, s1)
         | Inr req_res_get \<Rightarrow>
        (let (p, w2) = requests_post host url_1 request_data (world s1);
             s2 = s1\<lparr>world := w2, calls := calls s1 @ [HttpPost url_1 request_data]\<rparr>
         in case p of
              Inl e \<Rightarrow> (Inl e, s2)
            | Inr req_res_post \<Rightarrow>
           (let s3 = s2\<lparr>stdout := stdout s2 @ [PrintedContent (body req_res_get)]\<rparr>;
                s4 = s3\<lparr>inputs := seed_inputs\<rparr>
            in (OpenAI host openai_api_key, s4))))"

text \<open>Lines 133--164: one \<open>responses.create\<close>, two \<open>inputs.append\<close>, one \<open>responses.parse\<close>, one \<open>print\<close>.\<close>

definition exchange :: "'w openai_client \<Rightarrow> 'w state \<Rightarrow> outcome \<times> 'w state" where
  "exchange client s0 =
     (let req1 = create_request (inputs s0);
          (r1, w1) = responses_create client req1 (world s0);
          s1 = s0\<lparr>world := w1, calls := calls s0 @ [ResponsesCreate req1]\<rparr>
      in case r1 of
           Inl e \<Rightarrow> (Raised e, s1)
         | Inr response_1 \<Rightarrow>
        (case output_of response_1 of
           [] \<Rightarrow> (Raised IndexError, s1)
         | item # rest \<Rightarrow>
        (let s2 = s1\<lparr>inputs := inputs s1 @ [ResponseItem item]\<rparr>
         in case get_call_id item of
              Inl e \<Rightarrow> (Raised e, s2)
            | Inr cid \<Rightarrow>
           (let s3 = s2\<lparr>inputs := inputs s2 @
                       [FunctionCallOutput cid (json_dumps_str tool_output_placeholder)]\<rparr>;
                req2 = parse_request (inputs s3);
                (r2, w2) = responses_parse client req2 (world s3);
                s4 = s3\<lparr>world := w2, calls := calls s3 @ [ResponsesParse req2]\<rparr>
            in case r2 of
                 Inl e \<Rightarrow> (Raised e, s4)
               | Inr response_2 \<Rightarrow>
                   (Finished,
                    s4\<lparr>stdout := stdout s4 @ [PrintedParsed (output_parsed response_2)]\<rparr>)))))"

text \<open>The whole module.\<close>

definition script :: "'w host \<Rightarrow> 'w \<Rightarrow> outcome \<times> 'w state" where
  "script host w0 =
     (case preamble host w0 of
        (Inl e, s) \<Rightarrow> (Raised e, s)
      | (Inr client, s) \<Rightarrow> exchange client s)"

fun is_create :: "call \<Rightarrow> bool" where
  "is_create (ResponsesCreate r) = True"
| "is_create c = False"

fun is_parse :: "call \<Rightarrow> bool" where
  "is_parse (ResponsesParse r) = True"
| "is_parse c = False"

fun is_http :: "call \<Rightarrow> bool" where
  "is_http (HttpGet u p) = True"
| "is_http (HttpPost u p) = True"
| "is_http c = False"

definition count_calls :: "(call \<Rightarrow> bool) \<Rightarrow> 'w state \<Rightarrow> nat" where
  "count_calls kind s = length (filter kind (calls s))"

text \<open>The two items that lines 144--152 append for a first output item \<open>c\<close>.\<close>

definition answer :: "function_tool_call \<Rightarrow> input_item list" where
  "answer c =
     [ResponseItem (FunctionToolCall c),
      FunctionCallOutput (call_id c) (json_dumps_str tool_output_placeholder)]"

text \<open>The state in which line 133 is reached, for a world and the content printed on line 44.\<close>

definition after_preamble :: "'w \<Rightarrow> string \<Rightarrow> 'w state" where
  "after_preamble w content =
     \<lparr>world = w, inputs = seed_inputs,
      calls = [HttpGet url_1 request_data, HttpPost url_1 request_data],
      stdout = [PrintedContent content]\<rparr>"


text \<open>The keys \<open>fetch_fruits\<close> reads, in the order it reads them (lines 105--108).\<close>

definition required_keys :: "string list" where
  "required_keys = [''min_value'', ''max_value'', ''nutrition_name'']"

section \<open>Collaborators for concrete runs\<close>

text \<open>
  A completion service that plays a fixed sequence of responses, one per
  \<open>responses.create\<close>, and raises once the sequence is used up; its \<open>responses.parse\<close>
  gives the answer it was built with. The world is the part of the sequence not yet played.
\<close>

definition scripted_client :: "exn + parsed_response \<Rightarrow> (response list) openai_client" where
  "scripted_client parsed =
     \<lparr>responses_create = (\<lambda>req evs. case evs of
                                [] \<Rightarrow> (Inl (External ''APIError''), [])
                              | r # rest \<Rightarrow> (Inr r, rest)),
      responses_parse = (\<lambda>req evs. (parsed, evs))\<rparr>"

definition parsed_ok :: "exn + parsed_response" where
  "parsed_ok = Inr \<lparr>output_parsed = Some \<lparr>example_models = []\<rparr>\<rparr>"

text \<open>The two kinds of turn: one that requests tools only, and a final answer.\<close>

fun is_function_call :: "output_item \<Rightarrow> bool" where
  "is_function_call (FunctionToolCall c) = True"
| "is_function_call (OutputMessage m) = False"

definition is_tool_call_turn :: "response \<Rightarrow> bool" where
  "is_tool_call_turn r = (output_of r \<noteq> [] \<and> list_all is_function_call (output_of r))"

definition is_final_turn :: "response \<Rightarrow> bool" where
  "is_final_turn r = (case output_of r of [OutputMessage m] \<Rightarrow> True | _ \<Rightarrow> False)"

definition tool_turn :: "function_tool_call list \<Rightarrow> response" where
  "tool_turn cs = \<lparr>output_of = map FunctionToolCall cs\<rparr>"

definition final_turn :: response where
  "final_turn = \<lparr>output_of = [OutputMessage ''Two fruits match.'']\<rparr>"

text \<open>A completion service that requests the same tool call on every turn; the world counts the turns.\<close>

definition sugar_args :: string where
  "sugar_args = ''{\"nutrition_name\": \"sugar\", \"min_value\": 0, \"max_value\": 5}''"

definition sugar_call :: function_tool_call where
  "sugar_call = \<lparr>call_id = ''call_1'', name = ''get_fruits'', arguments = sugar_args\<rparr>"

definition tool_forever_client :: "nat openai_client" where
  "tool_forever_client =
     \<lparr>responses_create = (\<lambda>req n. (Inr (tool_turn [sugar_call]), Suc n)),
      responses_parse = (\<lambda>req n. (parsed_ok, Suc n))\<rparr>"

text \<open>
  Further tool calls: a value outside the enumeration under an unregistered name, a missing
  key, a second call of a batch, a number where a name is expected, a list where an object
  is expected.
\<close>

definition vitamin_args :: string where
  "vitamin_args = ''{\"nutrition_name\": \"vitamin\", \"min_value\": 0, \"max_value\": 5}''"

definition vitamin_call :: function_tool_call where
  "vitamin_call = \<lparr>call_id = ''call_1'', name = ''no_such_tool'', arguments = vitamin_args\<rparr>"

definition no_max_args :: string where
  "no_max_args = ''{\"nutrition_name\": \"sugar\", \"min_value\": 0}''"

definition no_max_call :: function_tool_call where
  "no_max_call = \<lparr>call_id = ''call_1'', name = ''no_such_tool'', arguments = no_max_args\<rparr>"

definition protein_args :: string where
  "protein_args = ''{\"nutrition_name\": \"protein\", \"min_value\": 1, \"max_value\": 2}''"

definition protein_call :: function_tool_call where
  "protein_call = \<lparr>call_id = ''call_2'', name = ''get_fruits'', arguments = protein_args\<rparr>"

definition seven_args :: string where
  "seven_args = ''{\"nutrition_name\": 7, \"min_value\": 0, \"max_value\": 5}''"

definition seven_call :: function_tool_call where
  "seven_call = \<lparr>call_id = ''call_1'', name = ''get_fruits'', arguments = seven_args\<rparr>"

definition list_call :: function_tool_call where
  "list_call = \<lparr>call_id = ''call_1'', name = ''get_fruits'', arguments = ''[]''\<rparr>"

definition fruit_body :: string where
  "fruit_body = ''[{\"name\": \"Avocado\"}]''"

definition home_page :: string where
  "home_page = ''<html></html>''"

text \<open>
  Library functions for those runs: \<open>json.loads\<close> on the texts above (and \<open>None\<close>, the decode
  error, on every other text, of which the runs below use only \<open>not json\<close> and
  \<open>home_page\<close>); \<open>str\<close> on \<open>None\<close>, the Booleans and the integers; an HTTP server that
  answers a GET of \<open>url_1\<close> with \<open>home_page\<close> and every other GET with \<open>fruit_body\<close>.
\<close>

definition fixture_loads :: "string \<Rightarrow> json option" where
  "fixture_loads s =
     (if s = sugar_args then
        Some (JObj [(''nutrition_name'', JStr ''sugar''), (''min_value'', JInt 0), (''max_value'', JInt 5)])
      else if s = vitamin_args then
        Some (JObj [(''nutrition_name'', JStr ''vitamin''), (''min_value'', JInt 0), (''max_value'', JInt 5)])
      else if s = no_max_args then
        Some (JObj [(''nutrition_name'', JStr ''sugar''), (''min_value'', JInt 0)])
      else if s = protein_args then
        Some (JObj [(''nutrition_name'', JStr ''protein''), (''min_value'', JInt 1), (''max_value'', JInt 2)])
      else if s = seven_args then
        Some (JObj [(''nutrition_name'', JInt 7), (''min_value'', JInt 0), (''max_value'', JInt 5)])
      else if s = ''[]'' then
        Some (JArr [])
      else if s = fruit_body then
        Some (JArr [JObj [(''name'', JStr ''Avocado'')]])
      else None)"

fun str_nat :: "nat \<Rightarrow> string" where
  "str_nat n =
     (if n < 10 then [''0123456789'' ! n]
      else str_nat (n div 10) @ [''0123456789'' ! (n mod 10)])"

fun fixture_str :: "json \<Rightarrow> string" where
  "fixture_str JNull = ''None''"
| "fixture_str (JBool b) = (if b then ''True'' else ''False'')"
| "fixture_str (JInt i) = (if i < 0 then CHR ''-'' # str_nat (nat (- i)) else str_nat (nat i))"
| "fixture_str (JStr s) = s"
| "fixture_str v = undefined"

definition fixture_lib :: "'w pylib" where
  "fixture_lib =
     \<lparr>json_loads = fixture_loads,
      py_str = fixture_str,
      requests_get = (\<lambda>url params w.
         (Inr \<lparr>body = (if url = url_1 then home_page else fruit_body)\<rparr>, w))\<rparr>"

text \<open>The same with no network, and with a server that answers with a page that is not JSON.\<close>

definition offline_lib :: "'w pylib" where
  "offline_lib = fixture_lib\<lparr>requests_get := (\<lambda>url params w. (Inl (External ''ConnectionError''), w))\<rparr>"

definition garbled_lib :: "'w pylib" where
  "garbled_lib = fixture_lib\<lparr>requests_get := (\<lambda>url params w. (Inr \<lparr>body = home_page\<rparr>, w))\<rparr>"

text \<open>A host with the key set, where both demonstration requests are answered and the constructor gives the client it is told.\<close>

definition fixture_host :: "'w openai_client \<Rightarrow> 'w host" where
  "fixture_host client =
     \<lparr>pylib_of = fixture_lib,
      requests_post = (\<lambda>url data w. (Inr \<lparr>body = home_page\<rparr>, w)),
      os_getenv = (\<lambda>k. if k = ''OPENAI_API_KEY'' then Some ''sk-test'' else None),
      OpenAI = (\<lambda>key. case key of
                         None \<Rightarrow> Inl (External ''OpenAIError'')
                       | Some k \<Rightarrow> Inr client)\<rparr>"

definition start :: "unit state" where
  "start = \<lparr>world = (), inputs = seed_inputs, calls = [], stdout = []\<rparr>"

section \<open>The ways through the module\<close>

lemma preamble_get_raises:
  assumes "requests_get (pylib_of host) url_1 request_data w = (Inl e, w1)"
  shows "preamble host w =
           (Inl e, \<lparr>world = w1, inputs = [], calls = [HttpGet url_1 request_data], stdout = []\<rparr>)"
  using assms by (simp add: preamble_def)

lemma preamble_post_raises:
  assumes "requests_get (pylib_of host) url_1 request_data w = (Inr g, w1)"
    and "requests_post host url_1 request_data w1 = (Inl e, w2)"
  shows "preamble host w =
           (Inl e, \<lparr>world = w2, inputs = [],
                    calls = [HttpGet url_1 request_data, HttpPost url_1 request_data],
                    stdout = []\<rparr>)"
  using assms by (simp add: preamble_def)

lemma preamble_requests_answered:
  assumes "requests_get (pylib_of host) url_1 request_data w = (Inr g, w1)"
    and "requests_post host url_1 request_data w1 = (Inr p, w2)"
  shows "preamble host w =
           (OpenAI host (os_getenv host ''OPENAI_API_KEY''), after_preamble w2 (body g))"
  using assms by (simp add: preamble_def after_preamble_def)

lemma preamble_cases:
  obtains
    (get_raises) e w1 where
      "preamble host w =
         (Inl e, \<lparr>world = w1, inputs = [], calls = [HttpGet url_1 request_data], stdout = []\<rparr>)"
  | (post_raises) e w2 where
      "preamble host w =
         (Inl e, \<lparr>world = w2, inputs = [],
                  calls = [HttpGet url_1 request_data, HttpPost url_1 request_data],
                  stdout = []\<rparr>)"
  | (answered) w2 content where
      "preamble host w = (OpenAI host (os_getenv host ''OPENAI_API_KEY''), after_preamble w2 content)"
proof (cases "requests_get (pylib_of host) url_1 request_data w")
  case (Pair x w1)
  show ?thesis
  proof (cases x)
    case (Inl e)
    with Pair get_raises show ?thesis by (simp add: preamble_get_raises)
  next
    case (Inr g)
    show ?thesis
    proof (cases "requests_post host url_1 request_data w1")
      case post: (Pair y w2)
      show ?thesis
      proof (cases y)
        case (Inl e)
        with Pair Inr post post_raises show ?thesis by (simp add: preamble_post_raises)
      next
        case inr: (Inr p)
        with Pair Inr post answered show ?thesis by (simp add: preamble_requests_answered)
      qed
    qed
  qed
qed

lemma preamble_ready:
  assumes "preamble host w = (Inr client, s)"
  obtains w2 content where "s = after_preamble w2 content"
  using assms by (cases rule: preamble_cases [of host w]) auto

lemma preamble_no_service_call:
  assumes "preamble host w = (r, s)"
  shows "filter is_create (calls s) = [] \<and> filter is_parse (calls s) = [] \<and> length (calls s) \<le> 2"
  using assms by (cases rule: preamble_cases [of host w]) (auto simp: after_preamble_def)

lemma script_ready:
  assumes "preamble host w = (Inr client, s)"
  shows "script host w = exchange client s"
  using assms by (simp add: script_def)

lemma script_not_ready:
  assumes "preamble host w = (Inl e, s)"
  shows "script host w = (Raised e, s)"
  using assms by (simp add: script_def)

lemma exchange_create_raises:
  assumes "responses_create client (create_request (inputs s)) (world s) = (Inl e, w1)"
  shows "exchange client s =
           (Raised e, s\<lparr>world := w1,
                         calls := calls s @ [ResponsesCreate (create_request (inputs s))]\<rparr>)"
  using assms by (simp add: exchange_def)

lemma exchange_empty_output:
  assumes "responses_create client (create_request (inputs s)) (world s) = (Inr r, w1)"
    and "output_of r = []"
  shows "exchange client s =
           (Raised IndexError,
            s\<lparr>world := w1, calls := calls s @ [ResponsesCreate (create_request (inputs s))]\<rparr>)"
  using assms by (simp add: exchange_def)

lemma exchange_message_first:
  assumes "responses_create client (create_request (inputs s)) (world s) = (Inr r, w1)"
    and "output_of r = OutputMessage m # rest"
  shows "exchange client s =
           (Raised (AttributeError ''call_id''),
            s\<lparr>world := w1, inputs := inputs s @ [ResponseItem (OutputMessage m)],
              calls := calls s @ [ResponsesCreate (create_request (inputs s))]\<rparr>)"
  using assms by (simp add: exchange_def)

lemma exchange_parse_raises:
  assumes "responses_create client (create_request (inputs s)) (world s) = (Inr r, w1)"
    and "output_of r = FunctionToolCall c # rest"
    and "responses_parse client (parse_request (inputs s @ answer c)) w1 = (Inl e, w2)"
  shows "exchange client s =
           (Raised e,
            s\<lparr>world := w2, inputs := inputs s @ answer c,
              calls := calls s @ [ResponsesCreate (create_request (inputs s)),
                                  ResponsesParse (parse_request (inputs s @ answer c))]\<rparr>)"
  using assms by (simp add: exchange_def answer_def)

lemma exchange_parse_returns:
  assumes "responses_create client (create_request (inputs s)) (world s) = (Inr r, w1)"
    and "output_of r = FunctionToolCall c # rest"
    and "responses_parse client (parse_request (inputs s @ answer c)) w1 = (Inr response_2, w2)"
  shows "exchange client s =
           (Finished,
            s\<lparr>world := w2, inputs := inputs s @ answer c,
              calls := calls s @ [ResponsesCreate (create_request (inputs s)),
                                  ResponsesParse (parse_request (inputs s @ answer c))],
              stdout := stdout s @ [PrintedParsed (output_parsed response_2)]\<rparr>)"
  using assms by (simp add: exchange_def answer_def)

lemma exchange_cases:
  obtains
    (create_raises) e w1 where
      "responses_create client (create_request (inputs s)) (world s) = (Inl e, w1)"
  | (empty_output) r w1 where
      "responses_create client (create_request (inputs s)) (world s) = (Inr r, w1)"
      "output_of r = []"
  | (message_first) r w1 m rest where
      "responses_create client (create_request (inputs s)) (world s) = (Inr r, w1)"
      "output_of r = OutputMessage m # rest"
  | (parse_raises) r w1 c rest e w2 where
      "responses_create client (create_request (inputs s)) (world s) = (Inr r, w1)"
      "output_of r = FunctionToolCall c # rest"
      "responses_parse client (parse_request (inputs s @ answer c)) w1 = (Inl e, w2)"
  | (parse_returns) r w1 c rest response_2 w2 where
      "responses_create client (create_request (inputs s)) (world s) = (Inr r, w1)"
      "output_of r = FunctionToolCall c # rest"
      "responses_parse client (parse_request (inputs s @ answer c)) w1 = (Inr response_2, w2)"
proof (cases "responses_create client (create_request (inputs s)) (world s)")
  case (Pair x w1)
  show ?thesis
  proof (cases x)
    case (Inl e)
    with Pair create_raises show ?thesis by simp
  next
    case (Inr r)
    show ?thesis
    proof (cases "output_of r")
      case Nil
      with Pair Inr empty_output show ?thesis by simp
    next
      case (Cons item rest)
      show ?thesis
      proof (cases item)
        case (FunctionToolCall c)
        show ?thesis
        proof (cases "responses_parse client (parse_request (inputs s @ answer c)) w1")
          case parse: (Pair y w2)
          show ?thesis
          proof (cases y)
            case (Inl e)
            with Pair Inr Cons FunctionToolCall parse parse_raises show ?thesis by simp
          next
            case inr: (Inr response_2)
            with Pair Inr Cons FunctionToolCall parse parse_returns show ?thesis by simp
          qed
        qed
      next
        case (OutputMessage m)
        with Pair Inr Cons message_first show ?thesis by simp
      qed
    qed
  qed
qed

lemma exchange_call_counts:
  "length (filter is_create (calls (snd (exchange client s)))) = Suc (length (filter is_create (calls s))) \<and>
   length (filter is_parse (calls (snd (exchange client s)))) \<le> Suc (length (filter is_parse (calls s))) \<and>
   length (calls (snd (exchange client s))) \<le> length (calls s) + 2"
proof (cases rule: exchange_cases [of client s])
  case (create_raises e w1)
  then show ?thesis by (simp add: exchange_create_raises)
next
  case (empty_output r w1)
  then show ?thesis by (simp add: exchange_empty_output)
next
  case (message_first r w1 m rest)
  then show ?thesis by (simp add: exchange_message_first)
next
  case (parse_raises r w1 c rest e w2)
  then show ?thesis by (simp add: exchange_parse_raises)
next
  case (parse_returns r w1 c rest response_2 w2)
  then show ?thesis by (simp add: exchange_parse_returns)
qed

lemma placeholder_text:
  "json_dumps_str tool_output_placeholder =
     ''\"output of the method that executed the function call\"''"
  by (simp add: json_dumps_str_def tool_output_placeholder_def escape_ascii_def)

lemma fixture_preamble:
  "preamble (fixture_host client) w = (Inr client, after_preamble w home_page)"
  by (simp add: preamble_requests_answered [where g = "\<lparr>body = home_page\<rparr>" and ?w1.0 = w
        and p = "\<lparr>body = home_page\<rparr>" and ?w2.0 = w] fixture_host_def fixture_lib_def)

lemma fixture_script:
  "script (fixture_host client) w = exchange client (after_preamble w home_page)"
  by (rule script_ready [OF fixture_preamble])

lemma scripted_create_cons:
  "responses_create (scripted_client parsed) req (r # rest) = (Inr r, rest)"
  by (simp add: scripted_client_def)

lemma scripted_create_nil:
  "responses_create (scripted_client parsed) req [] = (Inl (External ''APIError''), [])"
  by (simp add: scripted_client_def)

lemma scripted_parse:
  "responses_parse (scripted_client parsed) req evs = (parsed, evs)"
  by (simp add: scripted_client_def)

lemma tool_call_turn_first:
  assumes "is_tool_call_turn r"
  obtains c others where "output_of r = FunctionToolCall c # others"
proof -
  from assms obtain item others where o: "output_of r = item # others" and "is_function_call item"
    by (cases "output_of r") (auto simp: is_tool_call_turn_def)
  then obtain c where "item = FunctionToolCall c"
    by (cases item) auto
  with o that show ?thesis by simp
qed

lemma final_turn_message:
  assumes "is_final_turn f"
  obtains m where "output_of f = [OutputMessage m]"
  using assms by (auto simp: is_final_turn_def split: list.splits output_item.splits)

text \<open>A run against the scripted service whose first turn starts with a function call.\<close>

lemma scripted_run:
  assumes "output_of r = FunctionToolCall c # others"
  shows "script (fixture_host (scripted_client (Inr response_2))) (r # rest) =
           (Finished,
            \<lparr>world = rest, inputs = seed_inputs @ answer c,
             calls = [HttpGet url_1 request_data, HttpPost url_1 request_data,
                      ResponsesCreate (create_request seed_inputs),
                      ResponsesParse (parse_request (seed_inputs @ answer c))],
             stdout = [PrintedContent home_page, PrintedParsed (output_parsed response_2)]\<rparr>)"
proof -
  have "exchange (scripted_client (Inr response_2)) (after_preamble (r # rest) home_page) =
          (Finished,
           (after_preamble (r # rest) home_page)
             \<lparr>world := rest, inputs := inputs (after_preamble (r # rest) home_page) @ answer c,
               calls := calls (after_preamble (r # rest) home_page) @
                  [ResponsesCreate (create_request (inputs (after_preamble (r # rest) home_page))),
                   ResponsesParse (parse_request (inputs (after_preamble (r # rest) home_page) @ answer c))],
               stdout := stdout (after_preamble (r # rest) home_page) @
                  [PrintedParsed (output_parsed response_2)]\<rparr>)"
    by (rule exchange_parse_returns [where r = r and ?w1.0 = rest and rest = others])
       (simp_all add: after_preamble_def scripted_create_cons scripted_parse assms)
  then show ?thesis
    by (simp add: fixture_script after_preamble_def)
qed

lemma tool_forever_run:
  "script (fixture_host tool_forever_client) 0 =
     (Finished,
      \<lparr>world = 2, inputs = seed_inputs @ answer sugar_call,
       calls = [HttpGet url_1 request_data, HttpPost url_1 request_data,
                ResponsesCreate (create_request seed_inputs),
                ResponsesParse (parse_request (seed_inputs @ answer sugar_call))],
       stdout = [PrintedContent home_page, PrintedParsed (Some \<lparr>example_models = []\<rparr>)]\<rparr>)"
proof -
  have c: "responses_create tool_forever_client
             (create_request (inputs (after_preamble (0::nat) home_page)))
             (world (after_preamble (0::nat) home_page)) = (Inr (tool_turn [sugar_call]), 1)"
    by (simp add: tool_forever_client_def after_preamble_def)
  have o: "output_of (tool_turn [sugar_call]) = FunctionToolCall sugar_call # []"
    by (simp add: tool_turn_def)
  have p: "responses_parse tool_forever_client
             (parse_request (inputs (after_preamble (0::nat) home_page) @ answer sugar_call)) 1 =
           (Inr \<lparr>output_parsed = Some \<lparr>example_models = []\<rparr>\<rparr>, 2)"
    by (simp add: tool_forever_client_def parsed_ok_def)
  show ?thesis
    unfolding fixture_script exchange_parse_returns [OF c o p]
    by (simp add: after_preamble_def)
qed

section \<open>The ways through \<open>fetch_fruits\<close>\<close>

lemma fetch_fruits_sends:
  assumes "json_loads lib (arguments tc) = Some (JObj kvs)"
    and "map_of kvs ''min_value'' = Some mn"
    and "map_of kvs ''max_value'' = Some mx"
    and "map_of kvs ''nutrition_name'' = Some nv"
    and "requests_get lib (fruit_api_url @ ''/'' @ format_value (py_str lib) nv)
           [(''min'', mn), (''max'', mx)] (world s) = (r, w')"
  shows "fetch_fruits lib tc s =
           ((case r of Inl e \<Rightarrow> Inl e | Inr api_res \<Rightarrow> response_json lib api_res),
            s\<lparr>world := w',
              calls := calls s @ [HttpGet (fruit_api_url @ ''/'' @ format_value (py_str lib) nv)
                                    [(''min'', mn), (''max'', mx)]]\<rparr>)"
  using assms by (simp add: fetch_fruits_def split: sum.splits)

lemma fetch_fruits_not_json:
  assumes "json_loads lib (arguments tc) = None"
  shows "fetch_fruits lib tc s = (Inl JSONDecodeError, s)"
  using assms by (simp add: fetch_fruits_def)

lemma fetch_fruits_key_missing:
  assumes "json_loads lib (arguments tc) = Some (JObj kvs)"
    and "find (\<lambda>k. map_of kvs k = None) required_keys = Some k"
  shows "fetch_fruits lib tc s = (Inl (KeyError k), s)"
  using assms
  by (auto simp: fetch_fruits_def required_keys_def split: if_splits option.splits)

lemma fetch_fruits_not_object:
  assumes "json_loads lib (arguments tc) = Some a" and "\<forall>kvs. a \<noteq> JObj kvs"
  shows "fetch_fruits lib tc s = (Inl TypeError, s)"
  using assms by (cases a) (simp_all add: fetch_fruits_def)


lemma format_value_cases:
  "format_value to_str v = (case v of JStr n \<Rightarrow> n | _ \<Rightarrow> to_str v)"
  by (cases v) simp_all

lemma fixture_loads_simps:
  "fixture_loads sugar_args =
     Some (JObj [(''nutrition_name'', JStr ''sugar''), (''min_value'', JInt 0), (''max_value'', JInt 5)])"
  "fixture_loads vitamin_args =
     Some (JObj [(''nutrition_name'', JStr ''vitamin''), (''min_value'', JInt 0), (''max_value'', JInt 5)])"
  "fixture_loads no_max_args =
     Some (JObj [(''nutrition_name'', JStr ''sugar''), (''min_value'', JInt 0)])"
  "fixture_loads seven_args =
     Some (JObj [(''nutrition_name'', JInt 7), (''min_value'', JInt 0), (''max_value'', JInt 5)])"
  "fixture_loads ''[]'' = Some (JArr [])"
  "fixture_loads fruit_body = Some (JArr [JObj [(''name'', JStr ''Avocado'')]])"
  "fixture_loads home_page = None"
  "fixture_loads ''not json'' = None"
  by (simp_all add: fixture_loads_def sugar_args_def vitamin_args_def no_max_args_def
        protein_args_def seven_args_def fruit_body_def home_page_def)

lemma fixture_run_sugar:
  "fetch_fruits fixture_lib sugar_call start =
     (Inr (JArr [JObj [(''name'', JStr ''Avocado'')]]),
      \<lparr>world = (), inputs = seed_inputs,
       calls = [HttpGet ''https://www.fruityvice.com/api/fruit/sugar''
                  [(''min'', JInt 0), (''max'', JInt 5)]],
       stdout = []\<rparr>)"
  by (simp add: fetch_fruits_def fixture_lib_def sugar_call_def fixture_loads_simps
        response_json_def fruit_api_url_def url_1_def start_def)

lemma fixture_run_vitamin:
  "fetch_fruits fixture_lib vitamin_call start =
     (Inr (JArr [JObj [(''name'', JStr ''Avocado'')]]),
      \<lparr>world = (), inputs = seed_inputs,
       calls = [HttpGet ''https://www.fruityvice.com/api/fruit/vitamin''
                  [(''min'', JInt 0), (''max'', JInt 5)]],
       stdout = []\<rparr>)"
  by (simp add: fetch_fruits_def fixture_lib_def vitamin_call_def fixture_loads_simps
        response_json_def fruit_api_url_def url_1_def start_def)

lemma fixture_run_seven:
  "fetch_fruits fixture_lib seven_call start =
     (Inr (JArr [JObj [(''name'', JStr ''Avocado'')]]),
      \<lparr>world = (), inputs = seed_inputs,
       calls = [HttpGet ''https://www.fruityvice.com/api/fruit/7''
                  [(''min'', JInt 0), (''max'', JInt 5)]],
       stdout = []\<rparr>)"
  by (simp add: fetch_fruits_def fixture_lib_def seven_call_def fixture_loads_simps
        response_json_def fruit_api_url_def url_1_def start_def str_nat.simps)

lemma fixture_run_no_max:
  "fetch_fruits fixture_lib no_max_call start = (Inl (KeyError ''max_value''), start)"
  by (simp add: fetch_fruits_def fixture_lib_def no_max_call_def fixture_loads_simps)

lemma fixture_run_list:
  "fetch_fruits fixture_lib list_call start = (Inl TypeError, start)"
  by (simp add: fetch_fruits_def fixture_lib_def list_call_def fixture_loads_simps)

lemma offline_run_sugar:
  "fetch_fruits offline_lib sugar_call start =
     (Inl (External ''ConnectionError''),
      \<lparr>world = (), inputs = seed_inputs,
       calls = [HttpGet ''https://www.fruityvice.com/api/fruit/sugar''
                  [(''min'', JInt 0), (''max'', JInt 5)]],
       stdout = []\<rparr>)"
  by (simp add: fetch_fruits_def offline_lib_def fixture_lib_def sugar_call_def fixture_loads_simps
        fruit_api_url_def start_def)

lemma garbled_run_sugar:
  "fetch_fruits garbled_lib sugar_call start =
     (Inl RequestsJSONDecodeError,
      \<lparr>world = (), inputs = seed_inputs,
       calls = [HttpGet ''https://www.fruityvice.com/api/fruit/sugar''
                  [(''min'', JInt 0), (''max'', JInt 5)]],
       stdout = []\<rparr>)"
  by (simp add: fetch_fruits_def garbled_lib_def fixture_lib_def sugar_call_def fixture_loads_simps
        response_json_def fruit_api_url_def start_def)

lemma fetch_fruits_outcomes:
  obtains
    (not_json) "fetch_fruits lib tc s = (Inl JSONDecodeError, s)"
  | (not_object) "fetch_fruits lib tc s = (Inl TypeError, s)"
  | (key_missing) k where "k \<in> set required_keys" "fetch_fruits lib tc s = (Inl (KeyError k), s)"
  | (request_made) url params where
      "calls (snd (fetch_fruits lib tc s)) = calls s @ [HttpGet url params]"
proof (cases "json_loads lib (arguments tc)")
  case None
  then show ?thesis using not_json by (simp add: fetch_fruits_not_json)
next
  case (Some a)
  show ?thesis
  proof (cases "\<exists>kvs. a = JObj kvs")
    case False
    with Some not_object show ?thesis by (simp add: fetch_fruits_not_object)
  next
    case True
    then obtain kvs where a: "a = JObj kvs" by blast
    show ?thesis
    proof (cases "find (\<lambda>k. map_of kvs k = None) required_keys")
      case (Some k)
      then have "k \<in> set required_keys"
        by (auto simp: find_Some_iff)
      with Some \<open>json_loads lib (arguments tc) = Some a\<close> a key_missing show ?thesis
        by (simp add: fetch_fruits_key_missing)
    next
      case None
      then obtain mn mx nv where k: "map_of kvs ''min_value'' = Some mn"
        "map_of kvs ''max_value'' = Some mx" "map_of kvs ''nutrition_name'' = Some nv"
        by (auto simp: required_keys_def split: if_splits)
      obtain r w' where "requests_get lib (fruit_api_url @ ''/'' @ format_value (py_str lib) nv)
           [(''min'', mn), (''max'', mx)] (world s) = (r, w')"
        by (cases "requests_get lib (fruit_api_url @ ''/'' @ format_value (py_str lib) nv)
           [(''min'', mn), (''max'', mx)] (world s)")
      from fetch_fruits_sends [OF _ k this] \<open>json_loads lib (arguments tc) = Some a\<close> a
        request_made show ?thesis by simp
    qed
  qed
qed




section \<open>The claims\<close>

subsection \<open>C1: the bound on completion turns\<close>

text \<open>
  C1, as stated: the orchestrator holds a configurable cap \<open>max_turns\<close>; against a service
  that requests a tool call on every turn it ends in failure, with
  \<open>IterationLimitExceededError\<close>, after exactly \<open>max_turns\<close> turns.

  The script has no cap and no such failure. Against the service that requests a tool call
  on every turn it runs to its last statement and prints the parsed answer, after one
  \<open>responses.create\<close>: whatever \<open>max_turns\<close> is taken to be, this run is not a failure.
\<close>

theorem tool_forever_not_capped:
  "fst (script (fixture_host tool_forever_client) 0) = Finished \<and>
   count_calls is_create (snd (script (fixture_host tool_forever_client) 0)) = 1 \<and>
   stdout (snd (script (fixture_host tool_forever_client) 0)) =
     [PrintedContent home_page, PrintedParsed (Some \<lparr>example_models = []\<rparr>)]"
  by (simp add: tool_forever_run count_calls_def)

text \<open>
  C1, amended: the script has no iteration cap and no \<open>IterationLimitExceededError\<close>, and
  needs none to end, because it has no loop. On every host and for every completion
  service, also one that requests a tool call on every turn, a run makes at most one
  \<open>responses.create\<close> call, at most one \<open>responses.parse\<close> call and at most four outgoing
  calls in all; it makes exactly one \<open>responses.create\<close> call once the statements before
  line 133 (the demonstration requests and the construction of the client) have completed.
\<close>

theorem script_call_bound:
  "count_calls is_create (snd (script host w)) \<le> 1 \<and>
   count_calls is_parse (snd (script host w)) \<le> 1 \<and>
   length (calls (snd (script host w))) \<le> 4 \<and>
   (\<forall>client s. preamble host w = (Inr client, s) \<longrightarrow>
      count_calls is_create (snd (script host w)) = 1)"
proof (cases "preamble host w")
  case (Pair r s)
  note quiet = preamble_no_service_call [OF Pair]
  show ?thesis
  proof (cases r)
    case (Inl e)
    with Pair quiet show ?thesis
      by (simp add: script_not_ready count_calls_def)
  next
    case (Inr client)
    with Pair have "script host w = exchange client s"
      by (simp add: script_ready)
    with Pair Inr quiet exchange_call_counts [of client s] show ?thesis
      by (simp add: count_calls_def)
  qed
qed

theorem script_call_bound_witness:
  "count_calls is_create (snd (script (fixture_host tool_forever_client) 0)) \<le> 1 \<and>
   count_calls is_parse (snd (script (fixture_host tool_forever_client) 0)) \<le> 1 \<and>
   length (calls (snd (script (fixture_host tool_forever_client) 0))) \<le> 4 \<and>
   preamble (fixture_host tool_forever_client) 0 =
     (Inr tool_forever_client, after_preamble 0 home_page) \<and>
   count_calls is_create (snd (script (fixture_host tool_forever_client) 0)) = 1"
proof -
  have h: "preamble (fixture_host tool_forever_client) 0 =
     (Inr tool_forever_client, after_preamble 0 home_page)"
    by (rule fixture_preamble)
  from script_call_bound [of "fixture_host tool_forever_client" 0] h show ?thesis
    by blast
qed

subsection \<open>C2: the number of calls to the service\<close>

text \<open>
  C2, as stated: for \<open>N\<close> tool-call turns followed by a final answer, for every \<open>N \<ge> 0\<close>,
  the orchestrator makes exactly \<open>N + 1\<close> completion calls and exactly one parse call.

  For \<open>N = 2\<close> the script makes one \<open>responses.create\<close> call, not three: it reads the
  first turn and goes to \<open>responses.parse\<close>. For \<open>N = 0\<close> it makes no \<open>responses.parse\<close>
  call, not one: the first output item is a message, and reading its \<open>call_id\<close> raises.
\<close>

theorem turn_count_mismatch:
  "count_calls is_create
     (snd (script (fixture_host (scripted_client parsed_ok))
             (replicate 2 (tool_turn [sugar_call]) @ [final_turn]))) \<noteq> 2 + 1 \<and>
   count_calls is_parse
     (snd (script (fixture_host (scripted_client parsed_ok))
             (replicate 0 (tool_turn [sugar_call]) @ [final_turn]))) \<noteq> 1"
proof -
  have two: "replicate 2 (tool_turn [sugar_call]) @ [final_turn] =
          tool_turn [sugar_call] # [tool_turn [sugar_call], final_turn]"
    by (simp add: numeral_2_eq_2)
  have "output_of (tool_turn [sugar_call]) = FunctionToolCall sugar_call # []"
    by (simp add: tool_turn_def)
  then have a: "count_calls is_create
     (snd (script (fixture_host (scripted_client parsed_ok))
             (replicate 2 (tool_turn [sugar_call]) @ [final_turn]))) = 1"
    unfolding two parsed_ok_def by (simp add: scripted_run count_calls_def)
  have "exchange (scripted_client parsed_ok) (after_preamble [final_turn] home_page) =
      (Raised (AttributeError ''call_id''),
       (after_preamble [final_turn] home_page)
         \<lparr>world := [],
           inputs := inputs (after_preamble [final_turn] home_page) @
              [ResponseItem (OutputMessage ''Two fruits match.'')],
           calls := calls (after_preamble [final_turn] home_page) @
              [ResponsesCreate (create_request (inputs (after_preamble [final_turn] home_page)))]\<rparr>)"
    by (rule exchange_message_first [where r = final_turn and rest = "[]"])
       (simp_all add: after_preamble_def scripted_create_cons final_turn_def)
  then have b: "count_calls is_parse
     (snd (script (fixture_host (scripted_client parsed_ok))
             (replicate 0 (tool_turn [sugar_call]) @ [final_turn]))) = 0"
    by (simp add: fixture_script count_calls_def after_preamble_def)
  from a b show ?thesis by simp
qed

text \<open>
  C2, amended: for every sequence of \<open>N \<ge> 0\<close> tool-call turns followed by one final-answer
  turn that the service plays once line 133 is reached, the script makes exactly one
  \<open>responses.create\<close> call, whatever \<open>N\<close> is. It makes exactly one \<open>responses.parse\<close>
  call when \<open>N \<ge> 1\<close>, and none when \<open>N = 0\<close>, where it ends with \<open>AttributeError\<close>.
\<close>

theorem one_create_call:
  assumes "preamble host w = (Inr (scripted_client parsed), s)"
    and "world s = ts @ [f]"
    and "list_all is_tool_call_turn ts"
    and "is_final_turn f"
  shows "count_calls is_create (snd (script host w)) = 1 \<and>
         count_calls is_parse (snd (script host w)) = (if ts = [] then 0 else 1) \<and>
         (ts = [] \<longrightarrow> fst (script host w) = Raised (AttributeError ''call_id''))"
proof -
  note quiet = preamble_no_service_call [OF assms(1)]
  have run: "script host w = exchange (scripted_client parsed) s"
    by (rule script_ready [OF assms(1)])
  show ?thesis
  proof (cases ts)
    case Nil
    from assms(4) obtain m where "output_of f = [OutputMessage m]"
      by (rule final_turn_message)
    with Nil assms(2) have "exchange (scripted_client parsed) s =
        (Raised (AttributeError ''call_id''),
         s\<lparr>world := [], inputs := inputs s @ [ResponseItem (OutputMessage m)],
           calls := calls s @ [ResponsesCreate (create_request (inputs s))]\<rparr>)"
      by (intro exchange_message_first [where r = f and rest = "[]"])
         (simp_all add: scripted_create_cons)
    with Nil run quiet show ?thesis
      by (simp add: count_calls_def)
  next
    case (Cons r rest)
    with assms(3) have "is_tool_call_turn r" by simp
    then obtain c others where o: "output_of r = FunctionToolCall c # others"
      by (rule tool_call_turn_first)
    from Cons assms(2) have c: "responses_create (scripted_client parsed)
        (create_request (inputs s)) (world s) = (Inr r, rest @ [f])"
      by (simp add: scripted_create_cons)
    have p: "responses_parse (scripted_client parsed)
        (parse_request (inputs s @ answer c)) (rest @ [f]) = (parsed, rest @ [f])"
      by (rule scripted_parse)
    show ?thesis
    proof (cases parsed)
      case (Inl e)
      with p have "responses_parse (scripted_client parsed)
        (parse_request (inputs s @ answer c)) (rest @ [f]) = (Inl e, rest @ [f])" by simp
      from exchange_parse_raises [OF c o this] Cons run quiet show ?thesis
        by (simp add: count_calls_def)
    next
      case (Inr response_2)
      with p have "responses_parse (scripted_client parsed)
        (parse_request (inputs s @ answer c)) (rest @ [f]) = (Inr response_2, rest @ [f])" by simp
      from exchange_parse_returns [OF c o this] Cons run quiet show ?thesis
        by (simp add: count_calls_def)
    qed
  qed
qed

theorem one_create_call_witness:
  "preamble (fixture_host (scripted_client parsed_ok))
      (replicate 2 (tool_turn [sugar_call]) @ [final_turn]) =
     (Inr (scripted_client parsed_ok),
      after_preamble (replicate 2 (tool_turn [sugar_call]) @ [final_turn]) home_page) \<and>
   list_all is_tool_call_turn (replicate 2 (tool_turn [sugar_call])) \<and>
   is_final_turn final_turn \<and>
   count_calls is_create
     (snd (script (fixture_host (scripted_client parsed_ok))
        (replicate 2 (tool_turn [sugar_call]) @ [final_turn]))) = 1 \<and>
   count_calls is_parse
     (snd (script (fixture_host (scripted_client parsed_ok))
        (replicate 2 (tool_turn [sugar_call]) @ [final_turn]))) = 1 \<and>
   preamble (fixture_host (scripted_client parsed_ok)) ([] @ [final_turn]) =
     (Inr (scripted_client parsed_ok), after_preamble ([] @ [final_turn]) home_page) \<and>
   count_calls is_create
     (snd (script (fixture_host (scripted_client parsed_ok)) ([] @ [final_turn]))) = 1 \<and>
   count_calls is_parse
     (snd (script (fixture_host (scripted_client parsed_ok)) ([] @ [final_turn]))) = 0 \<and>
   fst (script (fixture_host (scripted_client parsed_ok)) ([] @ [final_turn])) =
     Raised (AttributeError ''call_id'')"
proof -
  have h1: "preamble (fixture_host (scripted_client parsed_ok))
      (replicate 2 (tool_turn [sugar_call]) @ [final_turn]) =
     (Inr (scripted_client parsed_ok),
      after_preamble (replicate 2 (tool_turn [sugar_call]) @ [final_turn]) home_page)"
    by (rule fixture_preamble)
  have h2: "world (after_preamble (replicate 2 (tool_turn [sugar_call]) @ [final_turn]) home_page) =
      replicate 2 (tool_turn [sugar_call]) @ [final_turn]"
    by (simp add: after_preamble_def)
  have h3: "list_all is_tool_call_turn (replicate 2 (tool_turn [sugar_call]))"
    by (simp add: numeral_2_eq_2 is_tool_call_turn_def tool_turn_def)
  have h4: "is_final_turn final_turn"
    by (simp add: is_final_turn_def final_turn_def)
  have n: "replicate 2 (tool_turn [sugar_call]) \<noteq> []"
    by (simp add: numeral_2_eq_2)
  have g1: "preamble (fixture_host (scripted_client parsed_ok)) ([] @ [final_turn]) =
     (Inr (scripted_client parsed_ok), after_preamble ([] @ [final_turn]) home_page)"
    by (rule fixture_preamble)
  have g2: "world (after_preamble ([] @ [final_turn]) home_page) = [] @ [final_turn]"
    by (simp add: after_preamble_def)
  have g3: "list_all is_tool_call_turn []"
    by simp
  from one_create_call [OF h1 h2 h3 h4] n
  have a: "count_calls is_create
     (snd (script (fixture_host (scripted_client parsed_ok))
        (replicate 2 (tool_turn [sugar_call]) @ [final_turn]))) = 1 \<and>
   count_calls is_parse
     (snd (script (fixture_host (scripted_client parsed_ok))
        (replicate 2 (tool_turn [sugar_call]) @ [final_turn]))) = 1"
    by simp
  from one_create_call [OF g1 g2 g3 h4]
  have b: "count_calls is_create
     (snd (script (fixture_host (scripted_client parsed_ok)) ([] @ [final_turn]))) = 1 \<and>
   count_calls is_parse
     (snd (script (fixture_host (scripted_client parsed_ok)) ([] @ [final_turn]))) = 0 \<and>
   fst (script (fixture_host (scripted_client parsed_ok)) ([] @ [final_turn])) =
     Raised (AttributeError ''call_id'')"
    by simp
  from h1 h3 h4 g1 a b show ?thesis by blast
qed

subsection \<open>C3: every request of a batch\<close>

text \<open>
  C3: every tool request of a turn is executed, in order, and a request entry and a result
  entry are appended for each before the next call to the service. The comment on lines
  139--141 of the source asks for the same (``for each function call in the
  \<open>response_1.output\<close> list''), but the code reads \<open>response_1.output[0]\<close> only. On a
  turn with two requests the second one is never appended, no tool is executed (the only
  requests sent are the two demonstration requests of lines 40--42), and
  \<open>responses.parse\<close> is called all the same.
\<close>

theorem batch_only_first_processed:
  "inputs (snd (script (fixture_host (scripted_client parsed_ok))
                  [tool_turn [sugar_call, protein_call], final_turn])) =
     seed_inputs @
       [ResponseItem (FunctionToolCall sugar_call),
        FunctionCallOutput ''call_1'' (json_dumps_str tool_output_placeholder)] \<and>
   ResponseItem (FunctionToolCall protein_call) \<notin>
     set (inputs (snd (script (fixture_host (scripted_client parsed_ok))
                  [tool_turn [sugar_call, protein_call], final_turn]))) \<and>
   calls (snd (script (fixture_host (scripted_client parsed_ok))
                  [tool_turn [sugar_call, protein_call], final_turn])) =
     [HttpGet url_1 request_data, HttpPost url_1 request_data,
      ResponsesCreate (create_request seed_inputs),
      ResponsesParse (parse_request
        (seed_inputs @
           [ResponseItem (FunctionToolCall sugar_call),
            FunctionCallOutput ''call_1'' (json_dumps_str tool_output_placeholder)]))] \<and>
   count_calls is_parse (snd (script (fixture_host (scripted_client parsed_ok))
                  [tool_turn [sugar_call, protein_call], final_turn])) = 1"
proof -
  have "output_of (tool_turn [sugar_call, protein_call]) =
          FunctionToolCall sugar_call # [FunctionToolCall protein_call]"
    by (simp add: tool_turn_def)
  then show ?thesis
    by (simp add: scripted_run parsed_ok_def answer_def count_calls_def seed_inputs_def
          sugar_call_def protein_call_def)
qed

subsection \<open>C4: what \<open>fetch_fruits\<close> checks\<close>

text \<open>
  C4, as stated: an invocation under a name that is not registered fails with
  \<open>UnknownToolError\<close>, and one whose arguments break the declared schema (a value outside
  the enumeration of \<open>nutrition_name\<close>, among others) fails with \<open>InvalidArgumentsError\<close>
  before the handler does anything.

  The source has no registry and no check against \<open>tools\<close>; the schema is sent to the
  completion service and never read again. For a call named \<open>no_such_tool\<close> with
  \<open>nutrition_name\<close> set to \<open>vitamin\<close>, which is outside the enumeration, \<open>fetch_fruits\<close>
  sends the request and returns the decoded answer.
\<close>

theorem vitamin_request_made:
  "JStr ''vitamin'' \<notin> set nutrition_enum \<and>
   fetch_fruits fixture_lib vitamin_call start =
     (Inr (JArr [JObj [(''name'', JStr ''Avocado'')]]),
      \<lparr>world = (), inputs = seed_inputs,
       calls = [HttpGet ''https://www.fruityvice.com/api/fruit/vitamin''
                  [(''min'', JInt 0), (''max'', JInt 5)]],
       stdout = []\<rparr>)"
  by (simp add: fixture_run_vitamin nutrition_enum_def)

text \<open>
  C4, amended: \<open>fetch_fruits\<close> looks up no name and checks no schema. Its result does not
  depend on the name of the call. Whenever the arguments decode to a JSON object that holds
  \<open>min_value\<close>, \<open>max_value\<close> and \<open>nutrition_name\<close> it issues the request, whatever the
  types of the values, whether or not \<open>nutrition_name\<close> is in the enumeration, and whatever
  other fields are present. It fails without a request only with the JSON decode error
  (the arguments are not JSON), \<open>TypeError\<close> (they are not an object) or \<open>KeyError\<close> (one
  of the three keys is missing), and then leaves the state as it was.
\<close>

theorem fetch_fruits_no_validation:
  "fetch_fruits lib (tc\<lparr>name := n\<rparr>) s = fetch_fruits lib tc s \<and>
   (\<forall>kvs. json_loads lib (arguments tc) = Some (JObj kvs) \<and>
          set required_keys \<subseteq> dom (map_of kvs) \<longrightarrow>
          count_calls is_http (snd (fetch_fruits lib tc s)) = Suc (count_calls is_http s)) \<and>
   (count_calls is_http (snd (fetch_fruits lib tc s)) = count_calls is_http s \<longrightarrow>
      (\<exists>e. fetch_fruits lib tc s = (Inl e, s) \<and>
           (e = JSONDecodeError \<or> e = TypeError \<or> e \<in> KeyError ` set required_keys)))"
proof (intro conjI allI impI)
  show "fetch_fruits lib (tc\<lparr>name := n\<rparr>) s = fetch_fruits lib tc s"
    by (simp add: fetch_fruits_def)
next
  fix kvs
  assume h: "json_loads lib (arguments tc) = Some (JObj kvs) \<and>
          set required_keys \<subseteq> dom (map_of kvs)"
  then obtain mn mx nv where k: "map_of kvs ''min_value'' = Some mn"
        "map_of kvs ''max_value'' = Some mx" "map_of kvs ''nutrition_name'' = Some nv"
    by (auto simp: required_keys_def)
  obtain r w' where "requests_get lib (fruit_api_url @ ''/'' @ format_value (py_str lib) nv)
           [(''min'', mn), (''max'', mx)] (world s) = (r, w')"
    by (cases "requests_get lib (fruit_api_url @ ''/'' @ format_value (py_str lib) nv)
           [(''min'', mn), (''max'', mx)] (world s)")
  from fetch_fruits_sends [OF _ k this] h
  show "count_calls is_http (snd (fetch_fruits lib tc s)) = Suc (count_calls is_http s)"
    by (simp add: count_calls_def)
next
  assume same: "count_calls is_http (snd (fetch_fruits lib tc s)) = count_calls is_http s"
  show "\<exists>e. fetch_fruits lib tc s = (Inl e, s) \<and>
           (e = JSONDecodeError \<or> e = TypeError \<or> e \<in> KeyError ` set required_keys)"
  proof (cases rule: fetch_fruits_outcomes [of lib tc s])
    case not_json
    then show ?thesis by simp
  next
    case not_object
    then show ?thesis by simp
  next
    case (key_missing k)
    then show ?thesis by auto
  next
    case (request_made url params)
    with same show ?thesis by (simp add: count_calls_def)
  qed
qed

theorem fetch_fruits_no_validation_witness:
  "fetch_fruits fixture_lib (vitamin_call\<lparr>name := ''get_fruits''\<rparr>) start =
     fetch_fruits fixture_lib vitamin_call start \<and>
   json_loads fixture_lib (arguments vitamin_call) =
     Some (JObj [(''nutrition_name'', JStr ''vitamin''), (''min_value'', JInt 0), (''max_value'', JInt 5)]) \<and>
   set required_keys \<subseteq>
     dom (map_of [(''nutrition_name'', JStr ''vitamin''), (''min_value'', JInt 0), (''max_value'', JInt 5)]) \<and>
   count_calls is_http (snd (fetch_fruits fixture_lib vitamin_call start)) =
     Suc (count_calls is_http start) \<and>
   count_calls is_http (snd (fetch_fruits fixture_lib no_max_call start)) = count_calls is_http start \<and>
   (\<exists>e. fetch_fruits fixture_lib no_max_call start = (Inl e, start) \<and>
        (e = JSONDecodeError \<or> e = TypeError \<or> e \<in> KeyError ` set required_keys))"
proof -
  have h1: "json_loads fixture_lib (arguments vitamin_call) =
     Some (JObj [(''nutrition_name'', JStr ''vitamin''), (''min_value'', JInt 0), (''max_value'', JInt 5)])"
    by (simp add: fixture_lib_def vitamin_call_def fixture_loads_simps)
  have h2: "set required_keys \<subseteq>
     dom (map_of [(''nutrition_name'', JStr ''vitamin''), (''min_value'', JInt 0), (''max_value'', JInt 5)])"
    by (simp add: required_keys_def)
  have h3: "count_calls is_http (snd (fetch_fruits fixture_lib no_max_call start)) =
     count_calls is_http start"
    by (simp add: fixture_run_no_max)
  note t = fetch_fruits_no_validation
             [where lib = fixture_lib and tc = vitamin_call and n = "''get_fruits''" and s = start]
  note u = fetch_fruits_no_validation
             [where lib = fixture_lib and tc = no_max_call and n = "''get_fruits''" and s = start]
  from t have c1: "fetch_fruits fixture_lib (vitamin_call\<lparr>name := ''get_fruits''\<rparr>) start =
     fetch_fruits fixture_lib vitamin_call start"
    by blast
  from t h1 h2 have c2: "count_calls is_http (snd (fetch_fruits fixture_lib vitamin_call start)) =
     Suc (count_calls is_http start)"
    by blast
  from u h3 have c3: "\<exists>e. fetch_fruits fixture_lib no_max_call start = (Inl e, start) \<and>
        (e = JSONDecodeError \<or> e = TypeError \<or> e \<in> KeyError ` set required_keys)"
    by blast
  from h1 h2 h3 c1 c2 c3 show ?thesis by blast
qed

subsection \<open>C5: the tool result that enters the transcript\<close>

text \<open>
  C5: the result of the handler, serialized to text, is what is appended to the transcript
  as the tool result, and no other value. The source's comments say so too (lines 9--10 and
  18: the output of the method that executes the tool is to be sent back as the result of
  its function call). The code on lines 148--152 appends \<open>json.dumps\<close> of a fixed string
  and never calls \<open>fetch_fruits\<close>: for a valid \<open>get_fruits\<close> call, for which the handler
  returns a list with one fruit, the transcript holds that fixed text, and the only requests
  sent are the two demonstration requests of lines 40--42.
\<close>

theorem placeholder_not_handler_result:
  "fst (fetch_fruits fixture_lib sugar_call start) = Inr (JArr [JObj [(''name'', JStr ''Avocado'')]]) \<and>
   inputs (snd (script (fixture_host (scripted_client parsed_ok))
                  [tool_turn [sugar_call], final_turn])) =
     seed_inputs @
       [ResponseItem (FunctionToolCall sugar_call),
        FunctionCallOutput ''call_1'' ''\"output of the method that executed the function call\"''] \<and>
   calls (snd (script (fixture_host (scripted_client parsed_ok))
                  [tool_turn [sugar_call], final_turn])) =
     [HttpGet url_1 request_data, HttpPost url_1 request_data,
      ResponsesCreate (create_request seed_inputs),
      ResponsesParse (parse_request
        (seed_inputs @
           [ResponseItem (FunctionToolCall sugar_call),
            FunctionCallOutput ''call_1''
              ''\"output of the method that executed the function call\"'']))]"
proof -
  have "output_of (tool_turn [sugar_call]) = FunctionToolCall sugar_call # []"
    by (simp add: tool_turn_def)
  moreover have "answer sugar_call =
       [ResponseItem (FunctionToolCall sugar_call),
        FunctionCallOutput ''call_1'' ''\"output of the method that executed the function call\"'']"
    by (simp add: answer_def placeholder_text) (simp add: sugar_call_def)
  ultimately show ?thesis
    by (simp add: scripted_run parsed_ok_def fixture_run_sugar)
qed

subsection \<open>C6: the identifier and the text of a result entry\<close>


subsection \<open>C7: a tool call that fails\<close>




subsection \<open>C8: how a failed run ends\<close>

text \<open>
  C8, as stated: a run that fails returns a failure result (kind, message and the partial
  transcript) to the caller instead of raising an exception.

  The source has no \<open>try\<close> and builds no result: when \<open>responses.create\<close> raises, and
  when \<open>responses.parse\<close> raises, the run ends with that exception, uncaught.
\<close>

theorem service_failure_uncaught:
  "fst (script (fixture_host (scripted_client parsed_ok)) []) = Raised (External ''APIError'') \<and>
   fst (script (fixture_host (scripted_client (Inl (External ''ValidationError''))))
          [tool_turn [sugar_call]]) = Raised (External ''ValidationError'')"
proof -
  have "responses_create (scripted_client parsed_ok)
          (create_request (inputs (after_preamble [] home_page)))
          (world (after_preamble [] home_page)) = (Inl (External ''APIError''), [])"
    by (simp add: after_preamble_def scripted_create_nil)
  note a = exchange_create_raises [OF this]
  have c: "responses_create (scripted_client (Inl (External ''ValidationError'')))
          (create_request (inputs (after_preamble [tool_turn [sugar_call]] home_page)))
          (world (after_preamble [tool_turn [sugar_call]] home_page)) =
        (Inr (tool_turn [sugar_call]), [])"
    by (simp add: after_preamble_def scripted_create_cons)
  have o: "output_of (tool_turn [sugar_call]) = FunctionToolCall sugar_call # []"
    by (simp add: tool_turn_def)
  have p: "responses_parse (scripted_client (Inl (External ''ValidationError'')))
          (parse_request (inputs (after_preamble [tool_turn [sugar_call]] home_page) @
             answer sugar_call)) [] = (Inl (External ''ValidationError''), [])"
    by (rule scripted_parse)
  note b = exchange_parse_raises [OF c o p]
  show ?thesis
    unfolding fixture_script a b by simp
qed

text \<open>
  C8, amended: a failure of the completion service ends the run with that exception,
  uncaught. Once line 133 is reached: when \<open>responses.create\<close> raises, the run ends there
  with the same exception, having made no further call and changed nothing else; when
  \<open>responses.parse\<close> raises, the run ends there with the same exception, after the two
  \<open>append\<close>. A run that fails after line 133 prints nothing beyond the output of line 44,
  and no failure result (kind, message, partial transcript) is built.
\<close>

theorem service_failure_propagates:
  assumes "preamble host w = (Inr client, s)"
  shows "(\<forall>e w1. responses_create client (create_request seed_inputs) (world s) = (Inl e, w1) \<longrightarrow>
            script host w =
              (Raised e,
               s\<lparr>world := w1, calls := calls s @ [ResponsesCreate (create_request seed_inputs)]\<rparr>)) \<and>
         (\<forall>r w1 c rest e w2.
            responses_create client (create_request seed_inputs) (world s) = (Inr r, w1) \<and>
            output_of r = FunctionToolCall c # rest \<and>
            responses_parse client (parse_request (seed_inputs @ answer c)) w1 = (Inl e, w2) \<longrightarrow>
            script host w =
              (Raised e,
               s\<lparr>world := w2, inputs := seed_inputs @ answer c,
                 calls := calls s @ [ResponsesCreate (create_request seed_inputs),
                                     ResponsesParse (parse_request (seed_inputs @ answer c))]\<rparr>)) \<and>
         (\<forall>e. fst (script host w) = Raised e \<longrightarrow> stdout (snd (script host w)) = stdout s) \<and>
         (\<exists>content. stdout s = [PrintedContent content])"
proof -
  from assms obtain w2 content where s: "s = after_preamble w2 content"
    by (rule preamble_ready)
  then have i: "inputs s = seed_inputs"
    by (simp add: after_preamble_def)
  have run: "script host w = exchange client s"
    by (rule script_ready [OF assms])
  have quiet: "\<forall>e. fst (exchange client s) = Raised e \<longrightarrow> stdout (snd (exchange client s)) = stdout s"
  proof (cases rule: exchange_cases [of client s])
    case (create_raises e w1)
    then show ?thesis by (simp add: exchange_create_raises)
  next
    case (empty_output r w1)
    then show ?thesis by (simp add: exchange_empty_output)
  next
    case (message_first r w1 m rest)
    then show ?thesis by (simp add: exchange_message_first)
  next
    case (parse_raises r w1 c rest e w2)
    then show ?thesis by (simp add: exchange_parse_raises)
  next
    case (parse_returns r w1 c rest response_2 w2)
    then show ?thesis by (simp add: exchange_parse_returns)
  qed
  show ?thesis
  proof (intro conjI allI impI)
    fix e w1
    assume "responses_create client (create_request seed_inputs) (world s) = (Inl e, w1)"
    with i have "responses_create client (create_request (inputs s)) (world s) = (Inl e, w1)"
      by simp
    from exchange_create_raises [OF this] i run
    show "script host w =
              (Raised e,
               s\<lparr>world := w1, calls := calls s @ [ResponsesCreate (create_request seed_inputs)]\<rparr>)"
      by simp
  next
    fix r w1 c rest e w2
    assume h: "responses_create client (create_request seed_inputs) (world s) = (Inr r, w1) \<and>
            output_of r = FunctionToolCall c # rest \<and>
            responses_parse client (parse_request (seed_inputs @ answer c)) w1 = (Inl e, w2)"
    with i have a: "responses_create client (create_request (inputs s)) (world s) = (Inr r, w1)"
      and b: "output_of r = FunctionToolCall c # rest"
      and c: "responses_parse client (parse_request (inputs s @ answer c)) w1 = (Inl e, w2)"
      by simp_all
    from exchange_parse_raises [OF a b c] i run
    show "script host w =
              (Raised e,
               s\<lparr>world := w2, inputs := seed_inputs @ answer c,
                 calls := calls s @ [ResponsesCreate (create_request seed_inputs),
                                     ResponsesParse (parse_request (seed_inputs @ answer c))]\<rparr>)"
      by simp
  next
    fix e
    assume "fst (script host w) = Raised e"
    with quiet run show "stdout (snd (script host w)) = stdout s"
      by simp
  next
    from s show "\<exists>content. stdout s = [PrintedContent content]"
      by (simp add: after_preamble_def)
  qed
qed

theorem service_failure_propagates_witness:
  "preamble (fixture_host (scripted_client parsed_ok)) [] =
     (Inr (scripted_client parsed_ok), after_preamble [] home_page) \<and>
   responses_create (scripted_client parsed_ok) (create_request seed_inputs) [] =
     (Inl (External ''APIError''), []) \<and>
   script (fixture_host (scripted_client parsed_ok)) [] =
     (Raised (External ''APIError''),
      \<lparr>world = [], inputs = seed_inputs,
       calls = [HttpGet url_1 request_data, HttpPost url_1 request_data,
                ResponsesCreate (create_request seed_inputs)],
       stdout = [PrintedContent home_page]\<rparr>) \<and>
   preamble (fixture_host (scripted_client (Inl (External ''ValidationError''))))
       [tool_turn [sugar_call]] =
     (Inr (scripted_client (Inl (External ''ValidationError''))),
      after_preamble [tool_turn [sugar_call]] home_page) \<and>
   responses_create (scripted_client (Inl (External ''ValidationError'')))
     (create_request seed_inputs) [tool_turn [sugar_call]] = (Inr (tool_turn [sugar_call]), []) \<and>
   output_of (tool_turn [sugar_call]) = FunctionToolCall sugar_call # [] \<and>
   responses_parse (scripted_client (Inl (External ''ValidationError'')))
     (parse_request (seed_inputs @ answer sugar_call)) [] = (Inl (External ''ValidationError''), []) \<and>
   script (fixture_host (scripted_client (Inl (External ''ValidationError''))))
       [tool_turn [sugar_call]] =
     (Raised (External ''ValidationError''),
      \<lparr>world = [], inputs = seed_inputs @ answer sugar_call,
       calls = [HttpGet url_1 request_data, HttpPost url_1 request_data,
                ResponsesCreate (create_request seed_inputs),
                ResponsesParse (parse_request (seed_inputs @ answer sugar_call))],
       stdout = [PrintedContent home_page]\<rparr>)"
proof -
  have h1: "preamble (fixture_host (scripted_client parsed_ok)) [] =
     (Inr (scripted_client parsed_ok), after_preamble [] home_page)"
    by (rule fixture_preamble)
  have h2: "responses_create (scripted_client parsed_ok) (create_request seed_inputs) [] =
     (Inl (External ''APIError''), [])"
    by (rule scripted_create_nil)
  then have h2': "responses_create (scripted_client parsed_ok) (create_request seed_inputs)
     (world (after_preamble [] home_page)) = (Inl (External ''APIError''), [])"
    by (simp add: after_preamble_def)
  have c1: "script (fixture_host (scripted_client parsed_ok)) [] =
     (Raised (External ''APIError''),
      \<lparr>world = [], inputs = seed_inputs,
       calls = [HttpGet url_1 request_data, HttpPost url_1 request_data,
                ResponsesCreate (create_request seed_inputs)],
       stdout = [PrintedContent home_page]\<rparr>)"
    using service_failure_propagates [OF h1, THEN conjunct1, rule_format, OF h2']
    by (simp add: after_preamble_def)
  have g1: "preamble (fixture_host (scripted_client (Inl (External ''ValidationError''))))
       [tool_turn [sugar_call]] =
     (Inr (scripted_client (Inl (External ''ValidationError''))),
      after_preamble [tool_turn [sugar_call]] home_page)"
    by (rule fixture_preamble)
  have g2: "responses_create (scripted_client (Inl (External ''ValidationError'')))
     (create_request seed_inputs) [tool_turn [sugar_call]] = (Inr (tool_turn [sugar_call]), [])"
    by (rule scripted_create_cons)
  then have g2': "responses_create (scripted_client (Inl (External ''ValidationError'')))
     (create_request seed_inputs) (world (after_preamble [tool_turn [sugar_call]] home_page)) =
     (Inr (tool_turn [sugar_call]), [])"
    by (simp add: after_preamble_def)
  have g3: "output_of (tool_turn [sugar_call]) = FunctionToolCall sugar_call # []"
    by (simp add: tool_turn_def)
  have g4: "responses_parse (scripted_client (Inl (External ''ValidationError'')))
     (parse_request (seed_inputs @ answer sugar_call)) [] = (Inl (External ''ValidationError''), [])"
    by (rule scripted_parse)
  have d1: "script (fixture_host (scripted_client (Inl (External ''ValidationError''))))
       [tool_turn [sugar_call]] =
     (Raised (External ''ValidationError''),
      \<lparr>world = [], inputs = seed_inputs @ answer sugar_call,
       calls = [HttpGet url_1 request_data, HttpPost url_1 request_data,
                ResponsesCreate (create_request seed_inputs),
                ResponsesParse (parse_request (seed_inputs @ answer sugar_call))],
       stdout = [PrintedContent home_page]\<rparr>)"
    using service_failure_propagates [OF g1, THEN conjunct2, THEN conjunct1, rule_format,
          OF conjI [OF g2' conjI [OF g3 g4]]]
    by (simp add: after_preamble_def)
  show ?thesis
    by (intro conjI) (rule h1 h2 c1 g1 g2 g3 g4 d1)+
qed

subsection \<open>C9: the request \<open>fetch_fruits\<close> makes\<close>

text \<open>
  C9, as stated: whenever the \<open>arguments\<close> are a JSON object holding the three keys,
  \<open>fetch_fruits\<close> issues the GET request and returns the body of the response decoded as
  JSON.

  It sends the request, but it does not always return: with the three keys present and no
  network, \<open>requests.get\<close> raises and \<open>fetch_fruits\<close> raises the same exception; when the
  body of the answer is not JSON, it raises the decode error of the HTTP library.
\<close>

theorem fetch_fruits_offline_raises:
  "json_loads offline_lib (arguments sugar_call) =
     Some (JObj [(''nutrition_name'', JStr ''sugar''), (''min_value'', JInt 0), (''max_value'', JInt 5)]) \<and>
   fetch_fruits offline_lib sugar_call start =
     (Inl (External ''ConnectionError''),
      \<lparr>world = (), inputs = seed_inputs,
       calls = [HttpGet ''https://www.fruityvice.com/api/fruit/sugar''
                  [(''min'', JInt 0), (''max'', JInt 5)]],
       stdout = []\<rparr>) \<and>
   fst (fetch_fruits garbled_lib sugar_call start) = Inl RequestsJSONDecodeError"
  by (simp add: offline_run_sugar garbled_run_sugar)
     (simp add: offline_lib_def fixture_lib_def sugar_call_def fixture_loads_simps)

text \<open>
  C9, amended: whenever the \<open>arguments\<close> of the tool call are a JSON object holding
  \<open>nutrition_name\<close>, \<open>min_value\<close> and \<open>max_value\<close>, \<open>fetch_fruits\<close> issues exactly one GET
  request, to the URL made of \<open>https://www.fruityvice.com/api/fruit\<close>, a slash and the
  value of \<open>nutrition_name\<close> (a string as it is, any other value as \<open>str\<close> formats it),
  with the query parameters \<open>min\<close> and \<open>max\<close> bound to the values of \<open>min_value\<close> and
  \<open>max_value\<close>. When the request returns a response whose body is JSON, \<open>fetch_fruits\<close>
  returns that body decoded; when the request raises, or the body is not JSON, it raises
  that exception and returns nothing.
\<close>

theorem fetch_fruits_request:
  assumes "json_loads lib (arguments tc) = Some (JObj kvs)"
    and "map_of kvs ''nutrition_name'' = Some nv"
    and "map_of kvs ''min_value'' = Some mn"
    and "map_of kvs ''max_value'' = Some mx"
    and "url = ''https://www.fruityvice.com/api/fruit/'' @
                 (case nv of JStr n \<Rightarrow> n | _ \<Rightarrow> py_str lib nv)"
  shows "calls (snd (fetch_fruits lib tc s)) =
           calls s @ [HttpGet url [(''min'', mn), (''max'', mx)]] \<and>
         (\<forall>api_res w' v.
            requests_get lib url [(''min'', mn), (''max'', mx)] (world s) = (Inr api_res, w') \<and>
            json_loads lib (body api_res) = Some v \<longrightarrow>
            fetch_fruits lib tc s =
              (Inr v, s\<lparr>world := w',
                        calls := calls s @ [HttpGet url [(''min'', mn), (''max'', mx)]]\<rparr>)) \<and>
         (\<forall>e w'.
            requests_get lib url [(''min'', mn), (''max'', mx)] (world s) = (Inl e, w') \<longrightarrow>
            fst (fetch_fruits lib tc s) = Inl e) \<and>
         (\<forall>api_res w'.
            requests_get lib url [(''min'', mn), (''max'', mx)] (world s) = (Inr api_res, w') \<and>
            json_loads lib (body api_res) = None \<longrightarrow>
            fst (fetch_fruits lib tc s) = Inl RequestsJSONDecodeError)"
proof -
  have u: "fruit_api_url @ ''/'' @ format_value (py_str lib) nv = url"
    by (simp add: assms(5) fruit_api_url_def format_value_cases)
  obtain r w' where g: "requests_get lib url [(''min'', mn), (''max'', mx)] (world s) = (r, w')"
    by (cases "requests_get lib url [(''min'', mn), (''max'', mx)] (world s)")
  with u have "requests_get lib (fruit_api_url @ ''/'' @ format_value (py_str lib) nv)
      [(''min'', mn), (''max'', mx)] (world s) = (r, w')"
    by simp
  from fetch_fruits_sends [OF assms(1) assms(3) assms(4) assms(2) this] u
  have "fetch_fruits lib tc s =
           ((case r of Inl e \<Rightarrow> Inl e | Inr api_res \<Rightarrow> response_json lib api_res),
            s\<lparr>world := w', calls := calls s @ [HttpGet url [(''min'', mn), (''max'', mx)]]\<rparr>)"
    by simp
  with g show ?thesis
    by (auto simp: response_json_def)
qed

theorem fetch_fruits_request_witness:
  "json_loads fixture_lib (arguments sugar_call) =
     Some (JObj [(''nutrition_name'', JStr ''sugar''), (''min_value'', JInt 0), (''max_value'', JInt 5)]) \<and>
   calls (snd (fetch_fruits fixture_lib sugar_call start)) =
     calls start @ [HttpGet ''https://www.fruityvice.com/api/fruit/sugar''
                      [(''min'', JInt 0), (''max'', JInt 5)]] \<and>
   requests_get fixture_lib ''https://www.fruityvice.com/api/fruit/sugar''
     [(''min'', JInt 0), (''max'', JInt 5)] (world start) = (Inr \<lparr>body = fruit_body\<rparr>, ()) \<and>
   json_loads fixture_lib (body \<lparr>body = fruit_body\<rparr>) = Some (JArr [JObj [(''name'', JStr ''Avocado'')]]) \<and>
   fetch_fruits fixture_lib sugar_call start =
     (Inr (JArr [JObj [(''name'', JStr ''Avocado'')]]),
      start\<lparr>world := (),
             calls := calls start @ [HttpGet ''https://www.fruityvice.com/api/fruit/sugar''
                                       [(''min'', JInt 0), (''max'', JInt 5)]]\<rparr>) \<and>
   json_loads fixture_lib (arguments seven_call) =
     Some (JObj [(''nutrition_name'', JInt 7), (''min_value'', JInt 0), (''max_value'', JInt 5)]) \<and>
   calls (snd (fetch_fruits fixture_lib seven_call start)) =
     calls start @ [HttpGet ''https://www.fruityvice.com/api/fruit/7''
                      [(''min'', JInt 0), (''max'', JInt 5)]] \<and>
   requests_get offline_lib ''https://www.fruityvice.com/api/fruit/sugar''
     [(''min'', JInt 0), (''max'', JInt 5)] (world start) = (Inl (External ''ConnectionError''), ()) \<and>
   fst (fetch_fruits offline_lib sugar_call start) = Inl (External ''ConnectionError'') \<and>
   requests_get garbled_lib ''https://www.fruityvice.com/api/fruit/sugar''
     [(''min'', JInt 0), (''max'', JInt 5)] (world start) = (Inr \<lparr>body = home_page\<rparr>, ()) \<and>
   json_loads garbled_lib (body \<lparr>body = home_page\<rparr>) = None \<and>
   fst (fetch_fruits garbled_lib sugar_call start) = Inl RequestsJSONDecodeError"
proof -
  have a1: "json_loads fixture_lib (arguments sugar_call) =
     Some (JObj [(''nutrition_name'', JStr ''sugar''), (''min_value'', JInt 0), (''max_value'', JInt 5)])"
    by (simp add: fixture_lib_def sugar_call_def fixture_loads_simps)
  have a2: "''https://www.fruityvice.com/api/fruit/sugar'' =
      ''https://www.fruityvice.com/api/fruit/'' @
        (case JStr ''sugar'' of JStr n \<Rightarrow> n | _ \<Rightarrow> py_str fixture_lib (JStr ''sugar''))"
    by simp
  have a3: "requests_get fixture_lib ''https://www.fruityvice.com/api/fruit/sugar''
     [(''min'', JInt 0), (''max'', JInt 5)] (world start) = (Inr \<lparr>body = fruit_body\<rparr>, ())"
    by (simp add: fixture_lib_def url_1_def)
  have a4: "json_loads fixture_lib (body \<lparr>body = fruit_body\<rparr>) =
      Some (JArr [JObj [(''name'', JStr ''Avocado'')]])"
    by (simp add: fixture_lib_def fixture_loads_simps)
  have m: "map_of [(''nutrition_name'', JStr ''sugar''), (''min_value'', JInt 0), (''max_value'', JInt 5)]
             ''nutrition_name'' = Some (JStr ''sugar'')"
    "map_of [(''nutrition_name'', JStr ''sugar''), (''min_value'', JInt 0), (''max_value'', JInt 5)]
             ''min_value'' = Some (JInt 0)"
    "map_of [(''nutrition_name'', JStr ''sugar''), (''min_value'', JInt 0), (''max_value'', JInt 5)]
             ''max_value'' = Some (JInt 5)"
    by simp_all
  note t = fetch_fruits_request [OF a1 m a2, of start]
  from t have r1: "calls (snd (fetch_fruits fixture_lib sugar_call start)) =
     calls start @ [HttpGet ''https://www.fruityvice.com/api/fruit/sugar''
                      [(''min'', JInt 0), (''max'', JInt 5)]]"
    by simp
  have r2: "fetch_fruits fixture_lib sugar_call start =
     (Inr (JArr [JObj [(''name'', JStr ''Avocado'')]]),
      start\<lparr>world := (),
             calls := calls start @ [HttpGet ''https://www.fruityvice.com/api/fruit/sugar''
                                       [(''min'', JInt 0), (''max'', JInt 5)]]\<rparr>)"
    by (rule t [THEN conjunct2, THEN conjunct1, rule_format, OF conjI [OF a3 a4]])
  have b1: "json_loads fixture_lib (arguments seven_call) =
     Some (JObj [(''nutrition_name'', JInt 7), (''min_value'', JInt 0), (''max_value'', JInt 5)])"
    by (simp add: fixture_lib_def seven_call_def fixture_loads_simps)
  have b2: "''https://www.fruityvice.com/api/fruit/7'' =
      ''https://www.fruityvice.com/api/fruit/'' @
        (case JInt 7 of JStr n \<Rightarrow> n | _ \<Rightarrow> py_str fixture_lib (JInt 7))"
    by (simp add: fixture_lib_def str_nat.simps)
  from fetch_fruits_request [OF b1 _ _ _ b2, of "JInt 0" "JInt 5" start]
  have r3: "calls (snd (fetch_fruits fixture_lib seven_call start)) =
     calls start @ [HttpGet ''https://www.fruityvice.com/api/fruit/7''
                      [(''min'', JInt 0), (''max'', JInt 5)]]"
    by simp
  have c1: "json_loads offline_lib (arguments sugar_call) =
     Some (JObj [(''nutrition_name'', JStr ''sugar''), (''min_value'', JInt 0), (''max_value'', JInt 5)])"
    by (simp add: offline_lib_def fixture_lib_def sugar_call_def fixture_loads_simps)
  have c2: "''https://www.fruityvice.com/api/fruit/sugar'' =
      ''https://www.fruityvice.com/api/fruit/'' @
        (case JStr ''sugar'' of JStr n \<Rightarrow> n | _ \<Rightarrow> py_str offline_lib (JStr ''sugar''))"
    by simp
  have c3: "requests_get offline_lib ''https://www.fruityvice.com/api/fruit/sugar''
     [(''min'', JInt 0), (''max'', JInt 5)] (world start) = (Inl (External ''ConnectionError''), ())"
    by (simp add: offline_lib_def)
  have r4: "fst (fetch_fruits offline_lib sugar_call start) = Inl (External ''ConnectionError'')"
    by (rule fetch_fruits_request [OF c1 m c2, of start, THEN conjunct2, THEN conjunct2,
          THEN conjunct1, rule_format, OF c3])
  have d1: "json_loads garbled_lib (arguments sugar_call) =
     Some (JObj [(''nutrition_name'', JStr ''sugar''), (''min_value'', JInt 0), (''max_value'', JInt 5)])"
    by (simp add: garbled_lib_def fixture_lib_def sugar_call_def fixture_loads_simps)
  have d2: "''https://www.fruityvice.com/api/fruit/sugar'' =
      ''https://www.fruityvice.com/api/fruit/'' @
        (case JStr ''sugar'' of JStr n \<Rightarrow> n | _ \<Rightarrow> py_str garbled_lib (JStr ''sugar''))"
    by simp
  have d3: "requests_get garbled_lib ''https://www.fruityvice.com/api/fruit/sugar''
     [(''min'', JInt 0), (''max'', JInt 5)] (world start) = (Inr \<lparr>body = home_page\<rparr>, ())"
    by (simp add: garbled_lib_def)
  have d4: "json_loads garbled_lib (body \<lparr>body = home_page\<rparr>) = None"
    by (simp add: garbled_lib_def fixture_lib_def fixture_loads_simps)
  have r5: "fst (fetch_fruits garbled_lib sugar_call start) = Inl RequestsJSONDecodeError"
    by (rule fetch_fruits_request [OF d1 m d2, of start, THEN conjunct2, THEN conjunct2,
          THEN conjunct2, rule_format, OF conjI [OF d3 d4]])
  from a1 a3 a4 r1 r2 b1 r3 c3 r4 d3 d4 r5 show ?thesis
    by blast
qed

subsection \<open>C10: \<open>fetch_fruits\<close> on arguments it cannot read\<close>

text \<open>
  C10: \<open>fetch_fruits\<close> checks nothing. When the \<open>arguments\<close> are not valid JSON it raises
  the JSON decode error; when they are a JSON object that lacks one of \<open>min_value\<close>,
  \<open>max_value\<close>, \<open>nutrition_name\<close> it raises \<open>KeyError\<close> for the first one missing in that
  order. In both cases nothing is returned and no request has been made: the state is as
  before.
\<close>

theorem fetch_fruits_raises_on_bad_arguments:
  "(json_loads lib (arguments tc) = None \<longrightarrow> fetch_fruits lib tc s = (Inl JSONDecodeError, s)) \<and>
   (\<forall>kvs k. json_loads lib (arguments tc) = Some (JObj kvs) \<and>
            find (\<lambda>k. map_of kvs k = None) required_keys = Some k \<longrightarrow>
            fetch_fruits lib tc s = (Inl (KeyError k), s))"
  by (auto simp: fetch_fruits_not_json fetch_fruits_key_missing)

theorem fetch_fruits_raises_on_bad_arguments_witness:
  "json_loads fixture_lib (arguments (sugar_call\<lparr>arguments := ''not json''\<rparr>)) = None \<and>
   fetch_fruits fixture_lib (sugar_call\<lparr>arguments := ''not json''\<rparr>) start =
     (Inl JSONDecodeError, start) \<and>
   json_loads fixture_lib (arguments no_max_call) =
     Some (JObj [(''nutrition_name'', JStr ''sugar''), (''min_value'', JInt 0)]) \<and>
   find (\<lambda>k. map_of [(''nutrition_name'', JStr ''sugar''), (''min_value'', JInt 0)] k = None)
     required_keys = Some ''max_value'' \<and>
   fetch_fruits fixture_lib no_max_call start = (Inl (KeyError ''max_value''), start)"
proof -
  have h1: "json_loads fixture_lib (arguments (sugar_call\<lparr>arguments := ''not json''\<rparr>)) = None"
    by (simp add: fixture_lib_def fixture_loads_simps)
  have h2: "json_loads fixture_lib (arguments no_max_call) =
     Some (JObj [(''nutrition_name'', JStr ''sugar''), (''min_value'', JInt 0)])"
    by (simp add: fixture_lib_def no_max_call_def fixture_loads_simps)
  have h3: "find (\<lambda>k. map_of [(''nutrition_name'', JStr ''sugar''), (''min_value'', JInt 0)] k = None)
     required_keys = Some ''max_value''"
    by (simp add: required_keys_def)
  from fetch_fruits_raises_on_bad_arguments
         [of fixture_lib "sugar_call\<lparr>arguments := ''not json''\<rparr>" start] h1
  have c1: "fetch_fruits fixture_lib (sugar_call\<lparr>arguments := ''not json''\<rparr>) start =
     (Inl JSONDecodeError, start)"
    by blast
  from fetch_fruits_raises_on_bad_arguments [of fixture_lib no_max_call start] h2 h3
  have c2: "fetch_fruits fixture_lib no_max_call start = (Inl (KeyError ''max_value''), start)"
    by blast
  from h1 h2 h3 c1 c2 show ?thesis by blast
qed


end
